theory Spec2Isabelle
  imports Complex_Main "HOL-Library.Monad_Syntax"
begin

section \<open>Similarity3: the similarity group of 3D space\<close>

text \<open>
  The C++ type \<open>double\<close> is modelled by \<open>real\<close>: the algebraic laws below are
  statements of exact real arithmetic, and rounding, overflow and underflow of doubles
  are outside the model. A result that is not a finite number because of a division by
  zero or of the logarithm of a non-positive number is the value \<open>None\<close>, in the two
  functions where the source reaches it on inputs it accepts (\<open>Expmap\<close>, \<open>Logmap\<close>).
\<close>

subsection \<open>Vectors and matrices (Eigen's fixed-size types)\<close>

datatype Vector3 = Vector3 (vx: real) (vy: real) (vz: real)

text \<open>\<open>Point3\<close> is a class of three doubles; \<open>p.vector()\<close> is the same triple.\<close>

type_synonym Point3 = Vector3

definition vector :: "Point3 \<Rightarrow> Vector3" where
  "vector p = p"

text \<open>Row-major entries \<open>m00 m01 m02 m10 m11 m12 m20 m21 m22\<close>.\<close>

datatype Matrix3 = Matrix3 real real real real real real real real real

definition Vector3_Zero :: Vector3 where
  "Vector3_Zero = Vector3 0 0 0"

fun vadd :: "Vector3 \<Rightarrow> Vector3 \<Rightarrow> Vector3" where
  "vadd (Vector3 a b c) (Vector3 d e f) = Vector3 (a + d) (b + e) (c + f)"

fun vscale :: "real \<Rightarrow> Vector3 \<Rightarrow> Vector3" where
  "vscale k (Vector3 a b c) = Vector3 (k * a) (k * b) (k * c)"

fun vdot :: "Vector3 \<Rightarrow> Vector3 \<Rightarrow> real" where
  "vdot (Vector3 a b c) (Vector3 d e f) = a * d + b * e + c * f"

definition Matrix3_Identity :: Matrix3 where
  "Matrix3_Identity = Matrix3 1 0 0 0 1 0 0 0 1"

fun madd :: "Matrix3 \<Rightarrow> Matrix3 \<Rightarrow> Matrix3" where
  "madd (Matrix3 a00 a01 a02 a10 a11 a12 a20 a21 a22)
        (Matrix3 b00 b01 b02 b10 b11 b12 b20 b21 b22) =
     Matrix3 (a00 + b00) (a01 + b01) (a02 + b02)
             (a10 + b10) (a11 + b11) (a12 + b12)
             (a20 + b20) (a21 + b21) (a22 + b22)"

fun mscale :: "real \<Rightarrow> Matrix3 \<Rightarrow> Matrix3" where
  "mscale k (Matrix3 a00 a01 a02 a10 a11 a12 a20 a21 a22) =
     Matrix3 (k * a00) (k * a01) (k * a02)
             (k * a10) (k * a11) (k * a12)
             (k * a20) (k * a21) (k * a22)"

fun mmul :: "Matrix3 \<Rightarrow> Matrix3 \<Rightarrow> Matrix3" where
  "mmul (Matrix3 a00 a01 a02 a10 a11 a12 a20 a21 a22)
        (Matrix3 b00 b01 b02 b10 b11 b12 b20 b21 b22) =
     Matrix3 (a00 * b00 + a01 * b10 + a02 * b20)
             (a00 * b01 + a01 * b11 + a02 * b21)
             (a00 * b02 + a01 * b12 + a02 * b22)
             (a10 * b00 + a11 * b10 + a12 * b20)
             (a10 * b01 + a11 * b11 + a12 * b21)
             (a10 * b02 + a11 * b12 + a12 * b22)
             (a20 * b00 + a21 * b10 + a22 * b20)
             (a20 * b01 + a21 * b11 + a22 * b21)
             (a20 * b02 + a21 * b12 + a22 * b22)"

fun mvec :: "Matrix3 \<Rightarrow> Vector3 \<Rightarrow> Vector3" where
  "mvec (Matrix3 a00 a01 a02 a10 a11 a12 a20 a21 a22) (Vector3 p q r) =
     Vector3 (a00 * p + a01 * q + a02 * r)
             (a10 * p + a11 * q + a12 * r)
             (a20 * p + a21 * q + a22 * r)"

fun transpose3 :: "Matrix3 \<Rightarrow> Matrix3" where
  "transpose3 (Matrix3 a00 a01 a02 a10 a11 a12 a20 a21 a22) =
     Matrix3 a00 a10 a20 a01 a11 a21 a02 a12 a22"

fun determinant :: "Matrix3 \<Rightarrow> real" where
  "determinant (Matrix3 a00 a01 a02 a10 a11 a12 a20 a21 a22) =
     a00 * (a11 * a22 - a12 * a21)
   - a01 * (a10 * a22 - a12 * a20)
   + a02 * (a10 * a21 - a11 * a20)"

text \<open>\<open>skewSymmetric(wx, wy, wz)\<close>: the matrix of the cross product with \<open>(wx, wy, wz)\<close>.\<close>

definition skewSymmetric :: "real \<Rightarrow> real \<Rightarrow> real \<Rightarrow> Matrix3" where
  "skewSymmetric wx wy wz = Matrix3 0 (- wz) wy wz 0 (- wx) (- wy) wx 0"

subsection \<open>Rot3\<close>

text \<open>
  Modelled from the spec: the class \<open>Rot3\<close> (gtsam/geometry/Rot3.h) is not among the
  sources. The spec's data model gives a rotation as a 3 x 3 matrix \<open>R\<close>; the product of
  two rotations is the matrix product, a rotation acts on a point by the matrix-vector
  product, the inverse of a rotation is its transpose, and the default rotation is the
  identity matrix.
\<close>

datatype Rot3 = Rot3 (matrix: Matrix3)

definition Rot3_default :: Rot3 where
  "Rot3_default = Rot3 Matrix3_Identity"

definition Rot3_compose :: "Rot3 \<Rightarrow> Rot3 \<Rightarrow> Rot3" where
  "Rot3_compose R1 R2 = Rot3 (mmul (matrix R1) (matrix R2))"

definition Rot3_rotate :: "Rot3 \<Rightarrow> Point3 \<Rightarrow> Point3" where
  "Rot3_rotate R p = mvec (matrix R) p"

definition Rot3_inverse :: "Rot3 \<Rightarrow> Rot3" where
  "Rot3_inverse R = Rot3 (transpose3 (matrix R))"

text \<open>The spec's invariant on \<open>R\<close>: orthonormal with determinant \<open>+1\<close>.\<close>

definition orthonormal :: "Matrix3 \<Rightarrow> bool" where
  "orthonormal M \<longleftrightarrow>
     mmul (transpose3 M) M = Matrix3_Identity \<and> mmul M (transpose3 M) = Matrix3_Identity"

definition is_rotation :: "Rot3 \<Rightarrow> bool" where
  "is_rotation R \<longleftrightarrow> orthonormal (matrix R) \<and> determinant (matrix R) = 1"

subsection \<open>Similarity3: construction, composition, inverse, action\<close>

text \<open>The three members \<open>R_\<close>, \<open>t_\<close>, \<open>s_\<close>, named here by their accessors \<open>rotation()\<close>,
  \<open>translation()\<close>, \<open>scale()\<close>; the constructor is \<open>Similarity3(R, t, s)\<close>.\<close>

datatype Similarity3 = Similarity3 (rotation: Rot3) (translation: Point3) (scale: real)

text \<open>\<open>Similarity3::Similarity3()\<close>: \<open>R_()\<close>, \<open>t_()\<close>, \<open>s_(1)\<close>.\<close>

definition Similarity3_default :: Similarity3 where
  "Similarity3_default = Similarity3 Rot3_default Vector3_Zero 1"

definition identity :: Similarity3 where
  "identity = Similarity3_default"

text \<open>
  \<open>operator*(const Similarity3& T)\<close>:
  \<open>Similarity3(R_ * T.R_, ((1.0 / T.s_) * t_) + R_ * T.t_, s_ * T.s_)\<close>.
  The quotients \<open>1.0 / T.s_\<close> here and \<open>1.0 / s_\<close> in \<open>inverse\<close> are real quotients when
  the scale is not zero; the laws below are stated for elements of positive scale.
\<close>

definition compose :: "Similarity3 \<Rightarrow> Similarity3 \<Rightarrow> Similarity3" where
  "compose S T =
     Similarity3 (Rot3_compose (rotation S) (rotation T))
                 (vadd (vscale (1 / scale T) (translation S)) (Rot3_rotate (rotation S) (translation T)))
                 (scale S * scale T)"

text \<open>
  \<open>inverse()\<close>: \<open>Rt = R_.inverse()\<close>, \<open>sRt = R_.inverse() * (-s_ * t_)\<close>,
  \<open>Similarity3(Rt, sRt, 1.0 / s_)\<close>.
\<close>

definition inverse_sim :: "Similarity3 \<Rightarrow> Similarity3" where
  "inverse_sim S =
     (let Rt = Rot3_inverse (rotation S);
          sRt = Rot3_rotate (Rot3_inverse (rotation S)) (vscale (- scale S) (translation S))
      in Similarity3 Rt sRt (1 / scale S))"

text \<open>
  \<open>transform_from(p)\<close> returns \<open>R_ * (s_ * p) + t_\<close>. The two optional Jacobian outputs
  do not influence the returned point and are left out.
\<close>

definition transform_from :: "Similarity3 \<Rightarrow> Point3 \<Rightarrow> Point3" where
  "transform_from S p = vadd (Rot3_rotate (rotation S) (vscale (scale S) p)) (translation S)"

text \<open>The spec's invariant of a group element.\<close>

definition valid :: "Similarity3 \<Rightarrow> bool" where
  "valid S \<longleftrightarrow> is_rotation (rotation S) \<and> 0 < scale S"

subsection \<open>Similarity3: exponential and logarithm maps\<close>

datatype Vector7 = Vector7 real real real real real real real

text \<open>\<open>v.head<3>()\<close>, \<open>v.segment<3>(3)\<close> and \<open>v[6]\<close>.\<close>

fun head3 :: "Vector7 \<Rightarrow> Vector3" where
  "head3 (Vector7 v0 v1 v2 v3 v4 v5 v6) = Vector3 v0 v1 v2"

fun segment3 :: "Vector7 \<Rightarrow> Vector3" where
  "segment3 (Vector7 v0 v1 v2 v3 v4 v5 v6) = Vector3 v3 v4 v5"

fun at6 :: "Vector7 \<Rightarrow> real" where
  "at6 (Vector7 v0 v1 v2 v3 v4 v5 v6) = v6"

text \<open>
  A double that may fail to be a finite number is a \<open>real option\<close>: \<open>None\<close> stands for
  NaN and for the infinities. A division by zero gives \<open>None\<close>, and so does \<open>log\<close> of a
  non-positive number; an operation with a \<open>None\<close> operand gives \<open>None\<close> (no result below
  is divided by, so an infinity never comes back to a finite number).

  The test \<open>b = 0\<close> is made on the real number. A divisor that is computed from inputs
  that are exactly zero is zero in the doubles as well, so \<open>None\<close> at \<open>omega = 0\<close> or
  \<open>lambda = 0\<close> is what the source computes. The converse is not promised: a product of
  doubles may underflow to zero where the real product is not zero, and a difference
  may lose all its digits. The theorems on these functions use the first direction only.
\<close>

definition fdiv :: "real \<Rightarrow> real \<Rightarrow> real option" where
  "fdiv a b = (if b = 0 then None else Some (a / b))"

definition flog :: "real \<Rightarrow> real option" where
  "flog a = (if a \<le> 0 then None else Some (ln a))"

text \<open>
  The lines from \<open>lambdasquared = lambda * lambda\<close> to
  \<open>V = A*Matrix33::Identity() + B*wx + C*wx*wx\<close> are the same text in \<open>Logmap\<close>
  (lines 107 to 123) and in \<open>Expmap\<close> (lines 133 to 151). Each local variable of the
  source is one function here, of \<open>w\<close> and \<open>lambda\<close>, in the source's order. The source
  has no test of \<open>theta\<close> or \<open>lambda\<close> before any division.
\<close>

definition thetasquared :: "Vector3 \<Rightarrow> real" where
  "thetasquared w = vdot w w"

definition theta :: "Vector3 \<Rightarrow> real" where
  "theta w = sqrt (thetasquared w)"

text \<open>\<open>X = sin(theta)/theta\<close>\<close>

definition coeff_X :: "Vector3 \<Rightarrow> real option" where
  "coeff_X w = fdiv (sin (theta w)) (theta w)"

text \<open>\<open>Y = (1-cos(theta))/thetasquared\<close>\<close>

definition coeff_Y :: "Vector3 \<Rightarrow> real option" where
  "coeff_Y w = fdiv (1 - cos (theta w)) (thetasquared w)"

text \<open>\<open>Z = (1-X)/thetasquared\<close>\<close>

definition coeff_Z :: "Vector3 \<Rightarrow> real option" where
  "coeff_Z w = do { X \<leftarrow> coeff_X w; fdiv (1 - X) (thetasquared w) }"

text \<open>\<open>W = (0.5-Y)/thetasquared\<close>\<close>

definition coeff_W :: "Vector3 \<Rightarrow> real option" where
  "coeff_W w = do { Y \<leftarrow> coeff_Y w; fdiv (1 / 2 - Y) (thetasquared w) }"

text \<open>\<open>alpha = lambdasquared / (lambdasquared * thetasquared)\<close>\<close>

definition coeff_alpha :: "Vector3 \<Rightarrow> real \<Rightarrow> real option" where
  "coeff_alpha w lambda =
     (let lambdasquared = lambda * lambda
      in fdiv lambdasquared (lambdasquared * thetasquared w))"

text \<open>\<open>beta = (exp(-lambda)-1+lambda)/lambdasquared\<close>\<close>

definition coeff_beta :: "real \<Rightarrow> real option" where
  "coeff_beta lambda =
     (let lambdasquared = lambda * lambda
      in fdiv (exp (- lambda) - 1 + lambda) lambdasquared)"

text \<open>\<open>gama = Y - (lambda * Z)\<close>\<close>

definition coeff_gama :: "Vector3 \<Rightarrow> real \<Rightarrow> real option" where
  "coeff_gama w lambda = do { Y \<leftarrow> coeff_Y w; Z \<leftarrow> coeff_Z w; Some (Y - (lambda * Z)) }"

text \<open>\<open>mu = (1-lambda+(0.5*lambdasquared)-exp(-lambda))/(lambdasquared*lambda)\<close>\<close>

definition coeff_mu :: "real \<Rightarrow> real option" where
  "coeff_mu lambda =
     (let lambdasquared = lambda * lambda
      in fdiv (1 - lambda + ((1 / 2) * lambdasquared) - exp (- lambda))
              (lambdasquared * lambda))"

text \<open>\<open>upsilon = Z-(lambda*W)\<close>\<close>

definition coeff_upsilon :: "Vector3 \<Rightarrow> real \<Rightarrow> real option" where
  "coeff_upsilon w lambda =
     do { Z \<leftarrow> coeff_Z w; W \<leftarrow> coeff_W w; Some (Z - (lambda * W)) }"

text \<open>\<open>A = (1-exp(-lambda))/lambda\<close>\<close>

definition coeff_A :: "real \<Rightarrow> real option" where
  "coeff_A lambda = fdiv (1 - exp (- lambda)) lambda"

text \<open>\<open>B = alpha*(beta-gama)+gama\<close>\<close>

definition coeff_B :: "Vector3 \<Rightarrow> real \<Rightarrow> real option" where
  "coeff_B w lambda = do {
     alpha \<leftarrow> coeff_alpha w lambda;
     beta \<leftarrow> coeff_beta lambda;
     gama \<leftarrow> coeff_gama w lambda;
     Some (alpha * (beta - gama) + gama)
   }"

text \<open>\<open>C = alpha*(mu-upsilon)+upsilon\<close>\<close>

definition coeff_C :: "Vector3 \<Rightarrow> real \<Rightarrow> real option" where
  "coeff_C w lambda = do {
     alpha \<leftarrow> coeff_alpha w lambda;
     mu \<leftarrow> coeff_mu lambda;
     upsilon \<leftarrow> coeff_upsilon w lambda;
     Some (alpha * (mu - upsilon) + upsilon)
   }"

text \<open>
  \<open>V = A*Matrix33::Identity() + B*wx + C*wx*wx\<close>. When one of \<open>A\<close>, \<open>B\<close>, \<open>C\<close> is not
  finite, no entry of \<open>V\<close> is (NaN times zero is NaN): the matrix as a whole is \<open>None\<close>.
\<close>

definition V_matrix :: "Vector3 \<Rightarrow> real \<Rightarrow> Matrix3 option" where
  "V_matrix w lambda = do {
     let wx = skewSymmetric (vx w) (vy w) (vz w);
     A \<leftarrow> coeff_A lambda;
     B \<leftarrow> coeff_B w lambda;
     C \<leftarrow> coeff_C w lambda;
     Some (madd (madd (mscale A Matrix3_Identity) (mscale B wx))
                (mmul (mscale C wx) wx))
   }"

text \<open>
  Eigen's \<open>inverse()\<close> of a fixed-size 3 x 3 matrix: the transposed cofactor matrix
  divided by the determinant.
\<close>

fun adjugate :: "Matrix3 \<Rightarrow> Matrix3" where
  "adjugate (Matrix3 a00 a01 a02 a10 a11 a12 a20 a21 a22) =
     Matrix3 (a11 * a22 - a12 * a21) (a02 * a21 - a01 * a22) (a01 * a12 - a02 * a11)
             (a12 * a20 - a10 * a22) (a00 * a22 - a02 * a20) (a02 * a10 - a00 * a12)
             (a10 * a21 - a11 * a20) (a01 * a20 - a00 * a21) (a00 * a11 - a01 * a10)"

definition inverse3 :: "Matrix3 \<Rightarrow> Matrix3 option" where
  "inverse3 M = do {
     invdet \<leftarrow> fdiv 1 (determinant M);
     Some (mscale invdet (adjugate M))
   }"

text \<open>
  \<open>Expmap\<close> always returns an element, and \<open>Logmap\<close> always returns a vector: where a
  division by zero has occurred, the translation of the element, or the part \<open>u\<close> of the
  vector, holds NaN. \<open>Similarity3N\<close> is the value of the class \<open>Similarity3\<close> with a
  translation that may be not a number; \<open>Similarity3N_of\<close> takes an element of finite
  translation as it is. \<open>Vector7N\<close> is the vector \<open>result << w, u, lambda\<close> of \<open>Logmap\<close>,
  whose \<open>u\<close> and \<open>lambda\<close> may be not a number.
\<close>

datatype Similarity3N =
  Similarity3N (rotationN: Rot3) (translationN: "Point3 option") (scaleN: real)

definition Similarity3N_of :: "Similarity3 \<Rightarrow> Similarity3N" where
  "Similarity3N_of S = Similarity3N (rotation S) (Some (translation S)) (scale S)"

datatype Vector7N =
  Vector7N (w_part: Vector3) (u_part: "Vector3 option") (lambda_part: "real option")

text \<open>The spec's invariant of a group element concerns \<open>R\<close> and \<open>s\<close> only.\<close>

definition validN :: "Similarity3N \<Rightarrow> bool" where
  "validN S \<longleftrightarrow> is_rotation (rotationN S) \<and> 0 < scaleN S"

text \<open>
  \<open>Rot3::Expmap\<close> and \<open>Rot3::Logmap\<close> belong to the class \<open>Rot3\<close>, which is not among
  the sources: they are the parameters \<open>Rot3_Expmap\<close> and \<open>Rot3_Logmap\<close> of the two
  functions below. The optional Jacobian \<open>Hm\<close> is never written by the source.
\<close>

definition Logmap :: "(Rot3 \<Rightarrow> Vector3) \<Rightarrow> Similarity3N \<Rightarrow> Vector7N" where
  "Logmap Rot3_Logmap s =
     (let w = Rot3_Logmap (rotationN s);
          lambda = flog (scaleN s);
          V = do { l \<leftarrow> lambda; V_matrix w l };
          u = do {
                V' \<leftarrow> V;
                Vinv \<leftarrow> inverse3 V';
                t \<leftarrow> translationN s;
                Some (mvec Vinv (vector t))
              }
      in Vector7N w u lambda)"

text \<open>
  \<open>Similarity3(Rot3::Expmap(w), Point3(V*u), 1.0/exp(-lambda))\<close>. Over the reals
  \<open>exp(-lambda)\<close> is neither zero nor infinite, so the scale is a plain quotient.
\<close>

definition Expmap :: "(Vector3 \<Rightarrow> Rot3) \<Rightarrow> Vector7 \<Rightarrow> Similarity3N" where
  "Expmap Rot3_Expmap v =
     (let w = head3 v;
          lambda = at6 v;
          u = segment3 v;
          V = V_matrix w lambda
      in Similarity3N (Rot3_Expmap w) (map_option (\<lambda>V'. mvec V' u) V) (1 / exp (- lambda)))"

text \<open>\<open>ChartAtOrigin::Retract\<close> and \<open>ChartAtOrigin::Local\<close> use the two maps.\<close>

definition Retract :: "(Vector3 \<Rightarrow> Rot3) \<Rightarrow> Vector7 \<Rightarrow> Similarity3N" where
  "Retract Rot3_Expmap v = Expmap Rot3_Expmap v"

definition Local :: "(Rot3 \<Rightarrow> Vector3) \<Rightarrow> Similarity3N \<Rightarrow> Vector7N" where
  "Local Rot3_Logmap other = Logmap Rot3_Logmap other"

section \<open>ExpressionFactor\<close>

subsection \<open>The types the factor is built on\<close>

type_synonym Key = nat

type_synonym Vector = "real list"

text \<open>A dynamic matrix is the list of its columns (Eigen stores column-major).\<close>

type_synonym Matrix = "real list list"

definition Zero :: "nat \<Rightarrow> nat \<Rightarrow> Matrix" where
  "Zero rows cols = replicate cols (replicate rows 0)"

text \<open>
  The template parameter \<open>T\<close>: its \<open>T::dimension\<close> and its \<open>localCoordinates\<close>,
  \<open>a.localCoordinates(b)\<close> being \<open>localCoordinates T a b\<close>.
\<close>

record 'T Manifold =
  dimension :: nat
  localCoordinates :: "'T \<Rightarrow> 'T \<Rightarrow> Vector"

text \<open>
  Modelled from the spec: the noise-model classes are not among the sources. A noise
  model exposes its declared dimension; the constrained variant also exposes its unit
  weighting (\<open>unit()\<close>), a value of the type \<open>'u\<close> that is left open. A
  \<open>SharedNoiseModel\<close> is a shared pointer, which may be null.
\<close>

datatype 'u NoiseModel =
    is_Constrained: Constrained (dim: nat) (unit: 'u)
  | Unconstrained (dim: nat)

type_synonym 'u SharedNoiseModel = "'u NoiseModel option"

text \<open>\<open>boost::dynamic_pointer_cast<noiseModel::Constrained>\<close>: null unless constrained.\<close>

fun dynamic_pointer_cast_Constrained :: "'u SharedNoiseModel \<Rightarrow> 'u NoiseModel option" where
  "dynamic_pointer_cast_Constrained (Some (Constrained d u)) = Some (Constrained d u)"
| "dynamic_pointer_cast_Constrained (Some (Unconstrained d)) = None"
| "dynamic_pointer_cast_Constrained None = None"

text \<open>
  A \<open>JacobianMap\<close> maps a key to a view of a block of a matrix that lives elsewhere
  (a block of \<open>Ab\<close>, or an entry of \<open>H\<close>): here, to the number of that block.
  \<open>insert\<close> of a \<open>std::map\<close> leaves the map unchanged when the key is present.
\<close>

type_synonym JacobianMap = "(Key \<times> nat) list"

definition insert_block :: "JacobianMap \<Rightarrow> Key \<times> nat \<Rightarrow> JacobianMap" where
  "insert_block blocks kv = (if map_of blocks (fst kv) = None then blocks @ [kv] else blocks)"

text \<open>
  The class \<open>Expression<T>\<close> is not among the sources; the factor uses four of its
  members, which are the fields of this record: \<open>keys()\<close>, \<open>dimensions()\<close>, and the two
  overloads of \<open>value\<close>: \<open>value(x)\<close> is \<open>value_at\<close>; \<open>value(x, blocks)\<close> is \<open>value_blocks\<close>,
  which also receives the matrices the views of \<open>blocks\<close> point into and returns them
  as it leaves them.
\<close>

record ('v, 'T) Expression =
  keys :: "Key list"
  dimensions :: "nat list"
  value_at :: "'v \<Rightarrow> 'T"
  value_blocks :: "'v \<Rightarrow> JacobianMap \<Rightarrow> Matrix list \<Rightarrow> 'T \<times> Matrix list"

text \<open>
  The members \<open>noiseModel_\<close> and \<open>keys_\<close> (of the base class \<open>NoiseModelFactor\<close>),
  \<open>measurement_\<close> and \<open>expression_\<close>.
\<close>

record ('u, 'v, 'T) ExpressionFactor =
  noiseModel' :: "'u SharedNoiseModel"
  keys' :: "Key list"
  measurement' :: "'T"
  expression' :: "('v, 'T) Expression"

definition size_f :: "('u, 'v, 'T) ExpressionFactor \<Rightarrow> nat" where
  "size_f f = length (keys' f)"

text \<open>
  What \<open>linearize\<close> returns: \<open>JacobianFactor(keys, Ab, model)\<close>, or
  \<open>JacobianFactor(keys, Ab)\<close>, which has no noise model. \<open>Ab\<close> is the list of the blocks
  of the \<open>VerticalBlockMatrix\<close>.
\<close>

record 'u JacobianFactor =
  keys_jf :: "Key list"
  Ab :: "Matrix list"
  model :: "'u option"

text \<open>The right-hand side \<open>b\<close> of a linear factor: \<open>Ab(size()).col(0)\<close>.\<close>

definition getb :: "'u JacobianFactor \<Rightarrow> Vector" where
  "getb jf = (Ab jf ! length (keys_jf jf)) ! 0"

datatype error = invalid_argument string

subsection \<open>Constructor\<close>

text \<open>
  The base class is initialised with \<open>noiseModel\<close> and \<open>expression.keys()\<close>; then the two
  tests, in the source's order.
\<close>

definition ExpressionFactor ::
  "'T Manifold \<Rightarrow> 'u SharedNoiseModel \<Rightarrow> 'T \<Rightarrow> ('v, 'T) Expression
     \<Rightarrow> error + ('u, 'v, 'T) ExpressionFactor" where
  "ExpressionFactor T noiseModel measurement expression =
     (case noiseModel of
        None \<Rightarrow> Inl (invalid_argument ''ExpressionFactor: no NoiseModel.'')
      | Some nm \<Rightarrow>
          if dim nm \<noteq> dimension T
          then Inl (invalid_argument
                 ''ExpressionFactor was created with a NoiseModel of incorrect dimension.'')
          else Inr \<lparr> noiseModel' = noiseModel, keys' = keys expression,
                     measurement' = measurement, expression' = expression \<rparr>)"

subsection \<open>unwhitenedError\<close>

text \<open>
  The loop \<open>for (i = 0; i < size(); i++) blocks.insert(std::make_pair(keys_[i], block_i))\<close>,
  shared by \<open>unwhitenedError\<close> and \<open>prepareBlocks\<close>.
\<close>

definition insert_views :: "Key list \<Rightarrow> JacobianMap" where
  "insert_views ks = fold (\<lambda>i blocks. insert_block blocks (ks ! i, i)) [0..<length ks] []"

text \<open>
  The result is \<open>None\<close> where the source reads out of range or fails its assertion
  (\<open>H\<close> of the wrong size, fewer dimensions than keys). With \<open>H\<close>, each \<open>H[i]\<close> is
  resized to \<open>T::dimension\<close> by \<open>dims[i]\<close> and zeroed, the views are handed to the
  expression, and the matrices are returned as the expression leaves them.
\<close>

definition unwhitenedError ::
  "'T Manifold \<Rightarrow> ('u, 'v, 'T) ExpressionFactor \<Rightarrow> 'v \<Rightarrow> Matrix list option
     \<Rightarrow> (Vector \<times> Matrix list option) option" where
  "unwhitenedError T f x H =
     (case H of
        Some Hs \<Rightarrow>
          if length Hs \<noteq> size_f f then None
          else
            let dims = dimensions (expression' f) in
            if length dims < size_f f then None
            else
              let Hs0 = map (\<lambda>i. Zero (dimension T) (dims ! i)) [0..<size_f f];
                  blocks = insert_views (keys' f);
                  (val, Hs1) = value_blocks (expression' f) x blocks Hs0
              in Some (localCoordinates T (measurement' f) val, Some Hs1)
      | None \<Rightarrow>
          let val = value_at (expression' f) x
          in Some (localCoordinates T (measurement' f) val, None))"

subsection \<open>linearize\<close>

text \<open>
  \<open>prepareBlocks\<close>: \<open>VerticalBlockMatrix Ab(dims, T::dimension, true)\<close> has one block of
  \<open>T::dimension\<close> rows per entry of \<open>dims\<close> and one more block of a single column; it is
  zeroed. \<open>Ab(i)\<close> must exist for every \<open>i < size()\<close>.
\<close>

definition prepareBlocks ::
  "'T Manifold \<Rightarrow> ('u, 'v, 'T) ExpressionFactor \<Rightarrow> (Matrix list \<times> JacobianMap) option" where
  "prepareBlocks T f =
     (let dims = dimensions (expression' f);
          Ab0 = map (Zero (dimension T)) dims @ [Zero (dimension T) 1]
      in if length Ab0 < size_f f then None
         else Some (Ab0, insert_views (keys' f)))"

text \<open>\<open>Ab(i).col(0) = v\<close>; \<open>None\<close> when there is no such block or column.\<close>

definition assign_col0 :: "Matrix list \<Rightarrow> nat \<Rightarrow> Vector \<Rightarrow> Matrix list option" where
  "assign_col0 blocks i v =
     (if i < length blocks \<and> blocks ! i \<noteq> [] then Some (blocks[i := (blocks ! i)[0 := v]])
      else None)"

definition linearize ::
  "'T Manifold \<Rightarrow> ('u, 'v, 'T) ExpressionFactor \<Rightarrow> 'v \<Rightarrow> 'u JacobianFactor option" where
  "linearize T f x = do {
     (Ab0, blocks) \<leftarrow> prepareBlocks T f;
     let (val, Ab1) = value_blocks (expression' f) x blocks Ab0;
     Ab2 \<leftarrow> assign_col0 Ab1 (size_f f) (map uminus (localCoordinates T (measurement' f) val));
     let constrained = dynamic_pointer_cast_Constrained (noiseModel' f);
     (case constrained of
        Some c \<Rightarrow> Some \<lparr> keys_jf = keys' f, Ab = Ab2, model = Some (unit c) \<rparr>
      | None \<Rightarrow> Some \<lparr> keys_jf = keys' f, Ab = Ab2, model = None \<rparr>)
   }"

subsection \<open>A small instance\<close>

text \<open>
  A manifold of vectors (\<open>a.localCoordinates(b)\<close> is \<open>b - a\<close>), of dimension 2 and
  of dimension 7; an expression of one key, of local dimension 1, whose value is the
  \<open>Values\<close> argument itself and whose Jacobian block is the column \<open>(1, 0)\<close>; a factor
  with the measurement \<open>(1, 2)\<close>.
\<close>

abbreviation example_T :: "real list Manifold" where
  "example_T \<equiv> \<lparr> dimension = 2, localCoordinates = (\<lambda>a b. map2 (-) b a) \<rparr>"

abbreviation example_T7 :: "real list Manifold" where
  "example_T7 \<equiv> \<lparr> dimension = 7, localCoordinates = (\<lambda>a b. map2 (-) b a) \<rparr>"

abbreviation example_expression :: "(real list, real list) Expression" where
  "example_expression \<equiv>
     \<lparr> keys = [5], dimensions = [1], value_at = (\<lambda>x. x),
       value_blocks = (\<lambda>x blocks st.
          (x, case map_of blocks 5 of Some i \<Rightarrow> st[i := [[1, 0]]] | None \<Rightarrow> st)) \<rparr>"

abbreviation example_factor ::
  "real list SharedNoiseModel \<Rightarrow> (real list, real list, real list) ExpressionFactor" where
  "example_factor nm \<equiv>
     \<lparr> noiseModel' = nm, keys' = [5], measurement' = [1, 2],
       expression' = example_expression \<rparr>"

section \<open>Matrix algebra\<close>

lemma mmul_assoc: "mmul (mmul A B) C = mmul A (mmul B C)"
  by (cases A; cases B; cases C) (simp add: algebra_simps)

lemma mmul_Identity_left: "mmul Matrix3_Identity A = A"
  by (cases A) (simp add: Matrix3_Identity_def)

lemma mmul_Identity_right: "mmul A Matrix3_Identity = A"
  by (cases A) (simp add: Matrix3_Identity_def)

lemma mvec_mmul: "mvec (mmul A B) v = mvec A (mvec B v)"
  by (cases A; cases B; cases v) (simp add: algebra_simps)

lemma mvec_Identity: "mvec Matrix3_Identity v = v"
  by (cases v) (simp add: Matrix3_Identity_def)

lemma mvec_vadd: "mvec A (vadd v w) = vadd (mvec A v) (mvec A w)"
  by (cases A; cases v; cases w) (simp add: algebra_simps)

lemma mvec_vscale: "mvec A (vscale k v) = vscale k (mvec A v)"
  by (cases A; cases v) (simp add: algebra_simps)

lemma mvec_Zero: "mvec A Vector3_Zero = Vector3_Zero"
  by (cases A) (simp add: Vector3_Zero_def)

lemma vscale_vscale: "vscale k (vscale l v) = vscale (k * l) v"
  by (cases v) simp

lemma vscale_one: "vscale 1 v = v"
  by (cases v) simp

lemma vscale_Zero: "vscale k Vector3_Zero = Vector3_Zero"
  by (simp add: Vector3_Zero_def)

lemma vscale_vadd: "vscale k (vadd v w) = vadd (vscale k v) (vscale k w)"
  by (cases v; cases w) (simp add: algebra_simps)

lemma vadd_assoc: "vadd (vadd u v) w = vadd u (vadd v w)"
  by (cases u; cases v; cases w) simp

lemma vadd_Zero_left: "vadd Vector3_Zero v = v"
  by (cases v) (simp add: Vector3_Zero_def)

lemma vadd_Zero_right: "vadd v Vector3_Zero = v"
  by (cases v) (simp add: Vector3_Zero_def)

lemma vadd_vscale_cancel: "vadd (vscale k v) (vscale (- k) v) = Vector3_Zero"
  by (cases v) (simp add: Vector3_Zero_def)

lemma transpose3_mmul: "transpose3 (mmul A B) = mmul (transpose3 B) (transpose3 A)"
  by (cases A; cases B) (simp add: algebra_simps)

lemma transpose3_transpose3: "transpose3 (transpose3 A) = A"
  by (cases A) simp

lemma determinant_transpose3: "determinant (transpose3 A) = determinant A"
  by (cases A) (simp add: algebra_simps)

lemma determinant_mmul: "determinant (mmul A B) = determinant A * determinant B"
  by (cases A; cases B) (simp add: algebra_simps)

lemma orthonormal_mmul:
  assumes "orthonormal A" and "orthonormal B"
  shows "orthonormal (mmul A B)"
proof -
  have A1: "mmul (transpose3 A) A = Matrix3_Identity"
    and A2: "mmul A (transpose3 A) = Matrix3_Identity"
    using assms(1) by (simp_all add: orthonormal_def)
  have B1: "mmul (transpose3 B) B = Matrix3_Identity"
    and B2: "mmul B (transpose3 B) = Matrix3_Identity"
    using assms(2) by (simp_all add: orthonormal_def)
  have "mmul (transpose3 (mmul A B)) (mmul A B)
        = mmul (transpose3 B) (mmul (mmul (transpose3 A) A) B)"
    by (simp add: transpose3_mmul mmul_assoc)
  also have "\<dots> = Matrix3_Identity"
    by (simp add: A1 B1 mmul_Identity_left)
  finally have L: "mmul (transpose3 (mmul A B)) (mmul A B) = Matrix3_Identity" .
  have "mmul (mmul A B) (transpose3 (mmul A B))
        = mmul A (mmul (mmul B (transpose3 B)) (transpose3 A))"
    by (simp add: transpose3_mmul mmul_assoc)
  also have "\<dots> = Matrix3_Identity"
    by (simp add: A2 B2 mmul_Identity_left)
  finally have R: "mmul (mmul A B) (transpose3 (mmul A B)) = Matrix3_Identity" .
  from L R show ?thesis by (simp add: orthonormal_def)
qed

lemma orthonormal_transpose3: "orthonormal A \<Longrightarrow> orthonormal (transpose3 A)"
  by (simp add: orthonormal_def transpose3_transpose3)

section \<open>Similarity3: the group laws\<close>

lemma compose_identity_left: "compose identity a = a"
  by (cases a)
     (simp add: compose_def identity_def Similarity3_default_def Rot3_default_def
        Rot3_compose_def Rot3_rotate_def mmul_Identity_left mvec_Identity vscale_Zero
        vadd_Zero_left)

lemma compose_identity_right: "compose a identity = a"
  by (cases a)
     (simp add: compose_def identity_def Similarity3_default_def Rot3_default_def
        Rot3_compose_def Rot3_rotate_def mmul_Identity_right mvec_Zero vscale_one
        vadd_Zero_right)

lemma valid_example:
  "valid (Similarity3 (Rot3 (Matrix3 0 (- 1) 0 1 0 0 0 0 1)) (Vector3 1 2 3) 2)"
  by (simp add: valid_def is_rotation_def orthonormal_def Matrix3_Identity_def)

lemma valid_example2:
  "valid (Similarity3 (Rot3 (Matrix3 1 0 0 0 0 (- 1) 0 1 0)) (Vector3 4 5 6) (1 / 4))"
  by (simp add: valid_def is_rotation_def orthonormal_def Matrix3_Identity_def)

text \<open>
  Claim C10. The element returned by \<open>identity()\<close>, that is \<open>(R = identity, t = 0, s = 1)\<close>,
  is neutral on both sides for the composition: for every valid element \<open>a\<close>,
  \<open>identity() * a\<close> is \<open>a\<close> and \<open>a * identity()\<close> is \<open>a\<close>, exactly.
\<close>

theorem identity_neutral:
  assumes "valid a"
  shows "compose identity a = a \<and> compose a identity = a"
  by (simp add: compose_identity_left compose_identity_right)

theorem identity_neutral_witness:
  "valid (Similarity3 (Rot3 (Matrix3 0 (- 1) 0 1 0 0 0 0 1)) (Vector3 1 2 3) 2)
   \<and> compose identity (Similarity3 (Rot3 (Matrix3 0 (- 1) 0 1 0 0 0 0 1)) (Vector3 1 2 3) 2)
       = Similarity3 (Rot3 (Matrix3 0 (- 1) 0 1 0 0 0 0 1)) (Vector3 1 2 3) 2
   \<and> compose (Similarity3 (Rot3 (Matrix3 0 (- 1) 0 1 0 0 0 0 1)) (Vector3 1 2 3) 2) identity
       = Similarity3 (Rot3 (Matrix3 0 (- 1) 0 1 0 0 0 0 1)) (Vector3 1 2 3) 2"
  using identity_neutral [OF valid_example] valid_example by simp

lemma compose_assoc_lemma:
  assumes "scale b \<noteq> 0" and "scale c \<noteq> 0"
  shows "compose (compose a b) c = compose a (compose b c)"
proof -
  obtain Ra ta sa where a: "a = Similarity3 (Rot3 Ra) ta sa"
    by (metis Similarity3.exhaust Rot3.exhaust)
  obtain Rb tb sb where b: "b = Similarity3 (Rot3 Rb) tb sb"
    by (metis Similarity3.exhaust Rot3.exhaust)
  obtain Rc tc sc where c: "c = Similarity3 (Rot3 Rc) tc sc"
    by (metis Similarity3.exhaust Rot3.exhaust)
  have t: "vadd (vscale (1 / sc) (vadd (vscale (1 / sb) ta) (mvec Ra tb))) (mvec (mmul Ra Rb) tc)
         = vadd (vscale (1 / (sb * sc)) ta) (mvec Ra (vadd (vscale (1 / sc) tb) (mvec Rb tc)))"
    by (simp add: vscale_vadd vscale_vscale mvec_vadd mvec_vscale mvec_mmul vadd_assoc
        mult.commute)
  show ?thesis
    by (simp add: a b c compose_def Rot3_compose_def Rot3_rotate_def mmul_assoc t)
qed

text \<open>
  Claim C4. The composition is associative: for all valid elements \<open>a\<close>, \<open>b\<close>, \<open>c\<close>,
  \<open>(a * b) * c\<close> equals \<open>a * (b * c)\<close> in every component, exactly in real arithmetic.
\<close>

theorem compose_associative:
  assumes "valid a" and "valid b" and "valid c"
  shows "compose (compose a b) c = compose a (compose b c)"
  using assms by (intro compose_assoc_lemma) (simp_all add: valid_def)

theorem compose_associative_witness:
  "compose (compose (Similarity3 (Rot3 (Matrix3 0 (- 1) 0 1 0 0 0 0 1)) (Vector3 1 2 3) 2)
                    (Similarity3 (Rot3 (Matrix3 1 0 0 0 0 (- 1) 0 1 0)) (Vector3 4 5 6) (1 / 4)))
           (Similarity3 (Rot3 (Matrix3 0 (- 1) 0 1 0 0 0 0 1)) (Vector3 1 2 3) 2)
   = compose (Similarity3 (Rot3 (Matrix3 0 (- 1) 0 1 0 0 0 0 1)) (Vector3 1 2 3) 2)
       (compose (Similarity3 (Rot3 (Matrix3 1 0 0 0 0 (- 1) 0 1 0)) (Vector3 4 5 6) (1 / 4))
                (Similarity3 (Rot3 (Matrix3 0 (- 1) 0 1 0 0 0 0 1)) (Vector3 1 2 3) 2))"
  using compose_associative [OF valid_example valid_example2 valid_example] .

lemma compose_inverse_right:
  assumes "mmul (matrix (rotation a)) (transpose3 (matrix (rotation a))) = Matrix3_Identity"
    and "scale a \<noteq> 0"
  shows "compose a (inverse_sim a) = identity"
proof -
  obtain R t s where a: "a = Similarity3 (Rot3 R) t s"
    by (metis Similarity3.exhaust Rot3.exhaust)
  from assms have R: "mmul R (transpose3 R) = Matrix3_Identity" and s: "s \<noteq> 0"
    by (simp_all add: a)
  have "mvec R (mvec (transpose3 R) (vscale (- s) t)) = vscale (- s) t"
    by (simp add: mvec_mmul [symmetric] R mvec_Identity)
  then show ?thesis
    using s
    by (simp add: a compose_def inverse_sim_def Rot3_compose_def Rot3_rotate_def
        Rot3_inverse_def R identity_def Similarity3_default_def Rot3_default_def
        vadd_vscale_cancel)
qed

lemma compose_inverse_left:
  assumes "mmul (transpose3 (matrix (rotation a))) (matrix (rotation a)) = Matrix3_Identity"
    and "scale a \<noteq> 0"
  shows "compose (inverse_sim a) a = identity"
proof -
  obtain R t s where a: "a = Similarity3 (Rot3 R) t s"
    by (metis Similarity3.exhaust Rot3.exhaust)
  from assms have R: "mmul (transpose3 R) R = Matrix3_Identity" and s: "s \<noteq> 0"
    by (simp_all add: a)
  have "vadd (vscale (1 / s) (mvec (transpose3 R) (vscale (- s) t))) (mvec (transpose3 R) t)
        = Vector3_Zero"
    using s by (cases "mvec (transpose3 R) t") (simp add: mvec_vscale Vector3_Zero_def)
  then show ?thesis
    using s
    by (simp add: a compose_def inverse_sim_def Rot3_compose_def Rot3_rotate_def
        Rot3_inverse_def R identity_def Similarity3_default_def Rot3_default_def)
qed

text \<open>
  Claim C3. For every valid element \<open>a = (R, t, s)\<close>, with \<open>s > 0\<close>, \<open>inverse(a)\<close> is
  \<open>(R transposed, R transposed * (-s * t), 1 / s)\<close>, and both \<open>a * inverse(a)\<close> and
  \<open>inverse(a) * a\<close> are the identity element. The equalities are exact in real
  arithmetic, so they hold within every positive tolerance.
\<close>

theorem inverse_is_inverse:
  assumes "valid a"
  shows "inverse_sim a =
           Similarity3 (Rot3 (transpose3 (matrix (rotation a))))
             (mvec (transpose3 (matrix (rotation a))) (vscale (- scale a) (translation a)))
             (1 / scale a)
         \<and> compose a (inverse_sim a) = identity
         \<and> compose (inverse_sim a) a = identity"
proof -
  from assms have o: "orthonormal (matrix (rotation a))" and s: "scale a \<noteq> 0"
    by (simp_all add: valid_def is_rotation_def)
  have 1: "inverse_sim a =
           Similarity3 (Rot3 (transpose3 (matrix (rotation a))))
             (mvec (transpose3 (matrix (rotation a))) (vscale (- scale a) (translation a)))
             (1 / scale a)"
    by (simp add: inverse_sim_def Rot3_inverse_def Rot3_rotate_def)
  have 2: "compose a (inverse_sim a) = identity"
    using o s by (intro compose_inverse_right) (simp_all add: orthonormal_def)
  have 3: "compose (inverse_sim a) a = identity"
    using o s by (intro compose_inverse_left) (simp_all add: orthonormal_def)
  from 1 2 3 show ?thesis by blast
qed

theorem inverse_is_inverse_witness:
  "inverse_sim (Similarity3 (Rot3 (Matrix3 0 (- 1) 0 1 0 0 0 0 1)) (Vector3 1 2 3) 2)
     = Similarity3 (Rot3 (Matrix3 0 1 0 (- 1) 0 0 0 0 1)) (Vector3 (- 4) 2 (- 6)) (1 / 2)
   \<and> compose (Similarity3 (Rot3 (Matrix3 0 (- 1) 0 1 0 0 0 0 1)) (Vector3 1 2 3) 2)
       (inverse_sim (Similarity3 (Rot3 (Matrix3 0 (- 1) 0 1 0 0 0 0 1)) (Vector3 1 2 3) 2))
     = identity
   \<and> compose (inverse_sim (Similarity3 (Rot3 (Matrix3 0 (- 1) 0 1 0 0 0 0 1)) (Vector3 1 2 3) 2))
       (Similarity3 (Rot3 (Matrix3 0 (- 1) 0 1 0 0 0 0 1)) (Vector3 1 2 3) 2)
     = identity"
proof -
  note t = inverse_is_inverse [OF valid_example]
  from t have "inverse_sim (Similarity3 (Rot3 (Matrix3 0 (- 1) 0 1 0 0 0 0 1)) (Vector3 1 2 3) 2)
     = Similarity3 (Rot3 (Matrix3 0 1 0 (- 1) 0 0 0 0 1)) (Vector3 (- 4) 2 (- 6)) (1 / 2)"
    by simp
  with t show ?thesis by blast
qed

section \<open>Similarity3: the invariant and the action\<close>

lemma valid_compose:
  assumes "valid a" and "valid b"
  shows "valid (compose a b)"
  using assms
  by (simp add: valid_def is_rotation_def compose_def Rot3_compose_def orthonormal_mmul
      determinant_mmul)

lemma valid_inverse_sim:
  assumes "valid a"
  shows "valid (inverse_sim a)"
  using assms
  by (simp add: valid_def is_rotation_def inverse_sim_def Rot3_inverse_def
      orthonormal_transpose3 determinant_transpose3)

lemma is_rotation_default: "is_rotation Rot3_default"
  by (simp add: is_rotation_def Rot3_default_def orthonormal_def Matrix3_Identity_def)

lemma validN_Similarity3N_of: "validN (Similarity3N_of S) \<longleftrightarrow> valid S"
  by (simp add: validN_def valid_def Similarity3N_of_def)

lemma validN_Expmap:
  assumes "is_rotation (RE (head3 v))"
  shows "validN (Expmap RE v)"
  using assms by (simp add: Expmap_def validN_def Let_def)

text \<open>
  Claim C6. The invariant of the group is kept by every operation that returns an
  element: from elements whose \<open>R\<close> is orthonormal with determinant \<open>+1\<close> and whose \<open>s\<close> is
  strictly positive, the composition and the inverse return such an element; and for
  every tangent vector, the zero vector included, the element that \<open>Expmap\<close> returns and
  the element that \<open>Retract\<close> returns have an orthonormal \<open>R\<close> of determinant \<open>+1\<close> and a
  strictly positive \<open>s\<close>, given that \<open>Rot3::Expmap\<close> returns rotations.
\<close>

theorem invariant_preserved:
  assumes "valid a" and "valid b" and "\<forall>w. is_rotation (Rot3_Expmap w)"
  shows "valid (compose a b) \<and> valid (inverse_sim a)
         \<and> validN (Expmap Rot3_Expmap v)
         \<and> validN (Retract Rot3_Expmap v)"
  using assms
  by (simp add: Retract_def valid_compose valid_inverse_sim validN_Expmap)

theorem invariant_preserved_witness:
  "valid (compose (Similarity3 (Rot3 (Matrix3 0 (- 1) 0 1 0 0 0 0 1)) (Vector3 1 2 3) 2)
                  (Similarity3 (Rot3 (Matrix3 1 0 0 0 0 (- 1) 0 1 0)) (Vector3 4 5 6) (1 / 4)))
   \<and> valid (inverse_sim (Similarity3 (Rot3 (Matrix3 0 (- 1) 0 1 0 0 0 0 1)) (Vector3 1 2 3) 2))
   \<and> validN (Expmap (\<lambda>w. Rot3_default) (Vector7 0 0 0 0 0 0 0))
   \<and> validN (Retract (\<lambda>w. Rot3_default) (Vector7 0 0 0 0 0 0 0))"
proof -
  have r: "\<forall>w. is_rotation ((\<lambda>w. Rot3_default) w)"
    by (simp add: is_rotation_default)
  show ?thesis
    using invariant_preserved [OF valid_example valid_example2 r, of "Vector7 0 0 0 0 0 0 0"]
    by simp
qed

text \<open>With both scales equal to 1 the action is compatible with the composition.\<close>

lemma transform_from_compose_unit_scale:
  assumes "scale a = 1" and "scale b = 1"
  shows "transform_from (compose a b) p = transform_from a (transform_from b p)"
proof -
  obtain Ra ta sa where a: "a = Similarity3 (Rot3 Ra) ta sa"
    by (metis Similarity3.exhaust Rot3.exhaust)
  obtain Rb tb sb where b: "b = Similarity3 (Rot3 Rb) tb sb"
    by (metis Similarity3.exhaust Rot3.exhaust)
  from assms show ?thesis
    by (cases ta; cases "mvec Ra tb"; cases "mvec Ra (mvec Rb p)")
       (simp add: a b compose_def transform_from_def Rot3_compose_def Rot3_rotate_def
          vscale_one mvec_mmul mvec_vadd)
qed

text \<open>
  Claim C1, evaluated on the code. With \<open>a = (identity, 0, 2)\<close> and
  \<open>b = (identity, (1, 0, 0), 1)\<close>, two valid elements, the composition is
  \<open>a * b = (identity, (1, 0, 0), 2)\<close>, as the formula
  \<open>(R1 R2, (1 / s2) t1 + R1 t2, s1 s2)\<close> says; \<open>transform_from\<close> of \<open>a * b\<close> sends the
  origin to \<open>(1, 0, 0)\<close>, while applying \<open>b\<close> and then \<open>a\<close> sends it to \<open>(2, 0, 0)\<close>.
\<close>

theorem transform_from_compose_mismatch:
  "valid (Similarity3 Rot3_default Vector3_Zero 2)
   \<and> valid (Similarity3 Rot3_default (Vector3 1 0 0) 1)
   \<and> compose (Similarity3 Rot3_default Vector3_Zero 2) (Similarity3 Rot3_default (Vector3 1 0 0) 1)
       = Similarity3 Rot3_default (Vector3 1 0 0) 2
   \<and> transform_from (compose (Similarity3 Rot3_default Vector3_Zero 2)
                              (Similarity3 Rot3_default (Vector3 1 0 0) 1)) (Vector3 0 0 0)
       = Vector3 1 0 0
   \<and> transform_from (Similarity3 Rot3_default Vector3_Zero 2)
        (transform_from (Similarity3 Rot3_default (Vector3 1 0 0) 1) (Vector3 0 0 0))
       = Vector3 2 0 0"
  by (simp add: valid_def is_rotation_def orthonormal_def compose_def transform_from_def
      Rot3_compose_def Rot3_rotate_def Rot3_default_def Vector3_Zero_def Matrix3_Identity_def)

section \<open>Similarity3: the maps Expmap and Logmap\<close>












text \<open>
  Claim C5, evaluated on the code at the origin. \<open>Logmap\<close> of \<open>Expmap\<close> of the zero tangent
  vector, and \<open>Local\<close> of \<open>Retract\<close> of it, is the vector \<open>(0, NaN, 0)\<close>, not the zero
  vector; and \<open>Logmap\<close> of the identity element is \<open>(0, NaN, 0)\<close>, so that \<open>Expmap\<close> is
  handed a vector that is not finite.
\<close>

theorem Logmap_Expmap_origin:
  "Logmap (\<lambda>R. Vector3 0 0 0) (Expmap (\<lambda>w. Rot3_default) (Vector7 0 0 0 0 0 0 0))
     = Vector7N (Vector3 0 0 0) None (Some 0)
   \<and> Local (\<lambda>R. Vector3 0 0 0) (Retract (\<lambda>w. Rot3_default) (Vector7 0 0 0 0 0 0 0))
     = Vector7N (Vector3 0 0 0) None (Some 0)
   \<and> u_part (Logmap (\<lambda>R. Vector3 0 0 0) (Similarity3N_of identity)) = None"
  by (simp add: Local_def Retract_def Expmap_def Logmap_def V_matrix_def coeff_A_def fdiv_def
      flog_def Similarity3N_of_def identity_def Similarity3_default_def)

section \<open>ExpressionFactor: construction and linearization\<close>

text \<open>
  Claim C7. The construction of an \<open>ExpressionFactor\<close> fails if and only if no noise
  model is supplied or the dimension of the noise model differs from the dimension of
  the measurement type \<open>T\<close>. In particular a noise model of dimension 3 against a type of
  dimension 7 fails with the dimension error, and a noise model of the dimension of \<open>T\<close>
  gives the factor.
\<close>

theorem ExpressionFactor_fails_iff:
  "((\<exists>e. ExpressionFactor T noiseModel measurement expression = Inl e) \<longleftrightarrow>
      (noiseModel = None \<or> (\<exists>nm. noiseModel = Some nm \<and> dim nm \<noteq> dimension T)))
   \<and> (\<forall>nm. noiseModel = Some nm \<and> dim nm = 3 \<and> dimension T = 7 \<longrightarrow>
         ExpressionFactor T noiseModel measurement expression =
           Inl (invalid_argument
                  ''ExpressionFactor was created with a NoiseModel of incorrect dimension.''))
   \<and> (\<forall>nm. noiseModel = Some nm \<and> dim nm = dimension T \<longrightarrow>
         ExpressionFactor T noiseModel measurement expression =
           Inr \<lparr> noiseModel' = noiseModel, keys' = keys expression,
                 measurement' = measurement, expression' = expression \<rparr>)"
  by (auto simp: ExpressionFactor_def split: option.splits)

theorem ExpressionFactor_fails_iff_witness:
  "ExpressionFactor example_T7 (Some (Unconstrained 3 :: real list NoiseModel)) [1, 2]
       example_expression
     = Inl (invalid_argument
              ''ExpressionFactor was created with a NoiseModel of incorrect dimension.'')
   \<and> (\<exists>e. ExpressionFactor example_T7 (None :: real list SharedNoiseModel) [1, 2]
             example_expression = Inl e)
   \<and> ExpressionFactor example_T7 (Some (Unconstrained 7 :: real list NoiseModel)) [1, 2]
       example_expression
     = Inr \<lparr> noiseModel' = Some (Unconstrained 7), keys' = [5], measurement' = [1, 2],
             expression' = example_expression \<rparr>"
  using ExpressionFactor_fails_iff
      [of example_T7 "Some (Unconstrained 3 :: real list NoiseModel)" "[1, 2]" example_expression]
    ExpressionFactor_fails_iff
      [of example_T7 "None :: real list SharedNoiseModel" "[1, 2]" example_expression]
    ExpressionFactor_fails_iff
      [of example_T7 "Some (Unconstrained 7 :: real list NoiseModel)" "[1, 2]" example_expression]
  by simp

lemma linearize_Some:
  assumes "linearize T f x = Some jf"
  shows "\<exists>Ab0 blocks val Ab1.
           prepareBlocks T f = Some (Ab0, blocks)
         \<and> value_blocks (expression' f) x blocks Ab0 = (val, Ab1)
         \<and> size_f f < length Ab1 \<and> Ab1 ! size_f f \<noteq> []
         \<and> keys_jf jf = keys' f
         \<and> Ab jf = Ab1[size_f f := (Ab1 ! size_f f)
                          [0 := map uminus (localCoordinates T (measurement' f) val)]]
         \<and> model jf = map_option unit (dynamic_pointer_cast_Constrained (noiseModel' f))"
  using assms
  by (auto simp: linearize_def assign_col0_def Let_def
           split: Option.bind_splits prod.splits if_splits option.splits)

text \<open>
  \<open>linearize\<close> returns a factor when the expression gives one dimension per key and
  leaves the shape of the blocks as it finds it.
\<close>

lemma linearize_returns:
  assumes "length (dimensions (expression' f)) = size_f f"
    and "\<forall>blocks st. map length (snd (value_blocks (expression' f) x blocks st)) = map length st"
  shows "\<exists>jf. linearize T f x = Some jf"
proof -
  define Ab0 where
    "Ab0 = map (Zero (dimension T)) (dimensions (expression' f)) @ [Zero (dimension T) 1]"
  define blocks where "blocks = insert_views (keys' f)"
  obtain val Ab1 where v: "value_blocks (expression' f) x blocks Ab0 = (val, Ab1)"
    by (cases "value_blocks (expression' f) x blocks Ab0")
  have p: "prepareBlocks T f = Some (Ab0, blocks)"
    using assms(1) by (simp add: prepareBlocks_def Ab0_def blocks_def Let_def)
  from assms(2) v have s: "map length Ab1 = map length Ab0"
    by (metis snd_conv)
  then have l: "length Ab1 = length Ab0"
    by (metis length_map)
  have n: "size_f f < length Ab0" and z: "length (Ab0 ! size_f f) = 1"
    using assms(1) by (simp_all add: Ab0_def nth_append Zero_def)
  from s l n have "length (Ab1 ! size_f f) = length (Ab0 ! size_f f)"
    by (metis nth_map)
  with z have "Ab1 ! size_f f \<noteq> []" by auto
  with n l p v show ?thesis
    by (simp add: linearize_def assign_col0_def split: option.splits)
qed

lemma linearize_example:
  "linearize example_T (example_factor nm) [3, 5]
     = Some \<lparr> keys_jf = [5], Ab = [[[1, 0]], [[- 2, - 3]]],
              model = map_option unit (dynamic_pointer_cast_Constrained nm) \<rparr>"
  by (cases nm rule: dynamic_pointer_cast_Constrained.cases)
     (simp_all add: linearize_def prepareBlocks_def insert_views_def insert_block_def
        assign_col0_def size_f_def Zero_def)

text \<open>
  Claim C8. For every \<open>Values\<close> argument \<open>x\<close>, the right-hand-side column of the block
  matrix that \<open>linearize(x)\<close> returns is the negation of \<open>unwhitenedError(x)\<close> computed
  without Jacobians, that is of \<open>measurement.localCoordinates\<close> of the value of the
  expression at \<open>x\<close>; the expression's two overloads of \<open>value\<close> are required to return
  the same value.
\<close>

theorem linearize_rhs:
  assumes "linearize T f x = Some jf"
    and "\<forall>blocks st. fst (value_blocks (expression' f) x blocks st) = value_at (expression' f) x"
  shows "unwhitenedError T f x None
           = Some (localCoordinates T (measurement' f) (value_at (expression' f) x), None)
         \<and> getb jf = map uminus (localCoordinates T (measurement' f) (value_at (expression' f) x))"
proof -
  from linearize_Some [OF assms(1)] obtain Ab0 blocks val Ab1 where
    v: "value_blocks (expression' f) x blocks Ab0 = (val, Ab1)"
    and r: "size_f f < length Ab1" "Ab1 ! size_f f \<noteq> []"
    and k: "keys_jf jf = keys' f"
    and a: "Ab jf = Ab1[size_f f := (Ab1 ! size_f f)
                          [0 := map uminus (localCoordinates T (measurement' f) val)]]"
    by blast
  from assms(2) v have val: "val = value_at (expression' f) x"
    by (metis fst_conv)
  have "getb jf = map uminus (localCoordinates T (measurement' f) val)"
    using r by (simp add: getb_def k a size_f_def [symmetric])
  then show ?thesis
    by (simp add: val unwhitenedError_def)
qed

theorem linearize_rhs_witness:
  "linearize example_T (example_factor (Some (Unconstrained 2))) [3, 5]
     = Some \<lparr> keys_jf = [5], Ab = [[[1, 0]], [[- 2, - 3]]], model = None \<rparr>
   \<and> unwhitenedError example_T (example_factor (Some (Unconstrained 2))) [3, 5] None
     = Some ([2, 3], None)
   \<and> getb \<lparr> keys_jf = [5], Ab = [[[1, 0]], [[- 2, - 3]]], model = (None :: real list option) \<rparr>
     = [- 2, - 3]"
  using linearize_rhs [OF linearize_example [of "Some (Unconstrained 2)"]]
    linearize_example [of "Some (Unconstrained 2)"]
  by simp

text \<open>
  Claim C9. For every \<open>Values\<close> argument, when the noise model of the factor is of the
  constrained kind, the linear factor that \<open>linearize\<close> returns carries the unit
  weighting of that noise model; for every other noise model it carries none.
\<close>

theorem linearize_noise:
  assumes "linearize T f x = Some jf"
  shows "(\<forall>c. noiseModel' f = Some c \<and> is_Constrained c \<longrightarrow> model jf = Some (unit c))
         \<and> ((\<forall>c. noiseModel' f = Some c \<longrightarrow> \<not> is_Constrained c) \<longrightarrow> model jf = None)"
proof -
  from linearize_Some [OF assms] have
    m: "model jf = map_option unit (dynamic_pointer_cast_Constrained (noiseModel' f))"
    by blast
  show ?thesis
    unfolding m
    by (cases "noiseModel' f" rule: dynamic_pointer_cast_Constrained.cases) auto
qed

theorem linearize_noise_witness:
  "linearize example_T (example_factor (Some (Constrained 2 [1, 1]))) [3, 5]
     = Some \<lparr> keys_jf = [5], Ab = [[[1, 0]], [[- 2, - 3]]], model = Some [1, 1] \<rparr>
   \<and> linearize example_T (example_factor (Some (Unconstrained 2))) [3, 5]
     = Some \<lparr> keys_jf = [5], Ab = [[[1, 0]], [[- 2, - 3]]], model = None \<rparr>"
  using linearize_noise [OF linearize_example [of "Some (Constrained 2 [1, 1])"]]
    linearize_noise [OF linearize_example [of "Some (Unconstrained 2)"]]
    linearize_example [of "Some (Constrained 2 [1, 1])"]
    linearize_example [of "Some (Unconstrained 2)"]
  by simp

end
